theory Spec2Isabelle
  imports Main "HOL-Library.AList"
begin

section \<open>Values of the host language\<close>

text \<open>
  The rules of \<^verbatim>\<open>src/utils/calculators/rules.js\<close> are embedded as HOL functions.
  Conventions of the embedding:
  \<^item> a string is a list of ASCII characters;
  \<^item> a plain object used as a dictionary is the association list of its own properties, in
    the order \<^verbatim>\<open>Object.keys\<close> enumerates them; \<^verbatim>\<open>k in obj\<close> is \<open>k \<in> keys obj\<close> and
    \<^verbatim>\<open>obj[k]\<close> is \<open>map_of obj k\<close>, with \<open>None\<close> for \<^verbatim>\<open>undefined\<close> (properties inherited
    from \<^verbatim>\<open>Object.prototype\<close> are outside the model);
  \<^item> a \<^verbatim>\<open>Set\<close> of strings is the list of its members in insertion order;
  \<^item> a thrown exception is the left summand of a result \<open>error + 'a\<close>;
  \<^item> a distance is a value of any linearly ordered type (a number that is not NaN); the
    imported \<^verbatim>\<open>calcDistance\<close>, \<^verbatim>\<open>isInRegion\<close> and \<^verbatim>\<open>REGION_DISPLAY\<close> and the rendering
    of a number inside a template literal are parameters of the functions that use them.
\<close>

datatype error =
  Error string  \<comment> \<open>\<^verbatim>\<open>throw new Error(message)\<close>\<close>
  | TypeError   \<comment> \<open>a property read on \<^verbatim>\<open>undefined\<close> or \<^verbatim>\<open>null\<close>\<close>

type_synonym 'v object = "(string \<times> 'v) list"

definition keys :: "'v object \<Rightarrow> string list" where
  "keys obj = map fst obj"

definition toLowerCaseChar :: "char \<Rightarrow> char" where
  "toLowerCaseChar c =
     (let n = (of_char c :: nat) in if 65 \<le> n \<and> n \<le> 90 then char_of (n + 32) else c)"

definition toLowerCase :: "string \<Rightarrow> string" where
  "toLowerCase s = map toLowerCaseChar s"

section \<open>Data model\<close>

text \<open>
  Modelled from the spec: the class \<^verbatim>\<open>QantasEarnings\<close> of \<^verbatim>\<open>@/models/qantasEarnings\<close> is
  not part of the sources at hand. The rules read its fields \<^verbatim>\<open>qantasPoints\<close> and
  \<^verbatim>\<open>statusCredits\<close>, and the parser constructs it from the points and the credits, in this
  order.
\<close>

record qantasEarnings =
  qantasPoints :: int
  statusCredits :: int

definition QantasEarnings :: "int \<Rightarrow> int \<Rightarrow> qantasEarnings" where
  "QantasEarnings points credits = \<lparr>qantasPoints = points, statusCredits = credits\<rparr>"

record airport =
  iata :: string
  city :: string
  country :: string

record segment =
  fromAirport :: airport
  toAirport :: airport

text \<open>The object \<^verbatim>\<open>buildCalculationReturn\<close> returns; its fields carry the prefix \<open>res\<close>.\<close>

record calculationResult =
  resRule :: string
  resRuleUrl :: string
  resFareEarnCategory :: string
  resNotes :: string
  resQantasPoints :: int
  resStatusCredits :: int

text \<open>The base class \<^verbatim>\<open>Rule\<close>; the rule classes extend it.\<close>

record rule =
  name :: string
  ruleUrl :: string

definition buildCalculationReturn ::
  "'a rule_scheme \<Rightarrow> string \<Rightarrow> string \<Rightarrow> int \<Rightarrow> int \<Rightarrow> calculationResult" where
  "buildCalculationReturn this fareEarnCategory notes points credits =
     \<lparr>resRule = name this, resRuleUrl = ruleUrl this,
      resFareEarnCategory = fareEarnCategory, resNotes = notes,
      resQantasPoints = points, resStatusCredits = credits\<rparr>"

section \<open>DistanceRule\<close>

text \<open>A band without the property \<^verbatim>\<open>maxDistance\<close> has \<open>maxDistance = None\<close>.\<close>

record 'd distanceBand =
  minDistance :: 'd
  maxDistance :: "'d option"
  earnings :: "qantasEarnings object"

record 'd distanceRule = rule +
  distanceBands :: "'d distanceBand list"

definition DistanceRule ::
  "string \<Rightarrow> string \<Rightarrow> 'd distanceBand list \<Rightarrow> 'd distanceRule" where
  "DistanceRule n u bands = \<lparr>name = n, ruleUrl = u, distanceBands = bands\<rparr>"

definition getDistanceBand ::
  "('d::linorder) distanceRule \<Rightarrow> 'd \<Rightarrow> 'd distanceBand option" where
  "getDistanceBand this distance =
     find (\<lambda>distanceBand.
             minDistance distanceBand < distance \<and>
             (maxDistance distanceBand = None \<or> distance \<le> the (maxDistance distanceBand)))
          (distanceBands this)"

definition DistanceRule_applies ::
  "(airport \<Rightarrow> airport \<Rightarrow> 'd) \<Rightarrow> ('d::linorder) distanceRule \<Rightarrow> segment \<Rightarrow> string \<Rightarrow> bool" where
  "DistanceRule_applies calcDistance this segment fareEarnCategory =
     (let distance = calcDistance (fromAirport segment) (toAirport segment) in
      case getDistanceBand this distance of
        None \<Rightarrow> False
      | Some distanceBand \<Rightarrow> fareEarnCategory \<in> set (keys (earnings distanceBand)))"

definition notesForDistance :: "('d \<Rightarrow> string) \<Rightarrow> 'd distanceBand \<Rightarrow> string" where
  "notesForDistance numberToString distanceBand =
     (case maxDistance distanceBand of
        Some m \<Rightarrow> ''using band '' @ numberToString (minDistance distanceBand) @ '' - '' @
                  numberToString m
      | None \<Rightarrow> ''using band '' @ numberToString (minDistance distanceBand) @ '' and over'')"

definition DistanceRule_calculate ::
  "(airport \<Rightarrow> airport \<Rightarrow> 'd) \<Rightarrow> ('d \<Rightarrow> string) \<Rightarrow> ('d::linorder) distanceRule \<Rightarrow>
     segment \<Rightarrow> string \<Rightarrow> error + calculationResult" where
  "DistanceRule_calculate calcDistance numberToString this segment fareEarnCategory =
     (let distance = calcDistance (fromAirport segment) (toAirport segment) in
      case getDistanceBand this distance of
        None \<Rightarrow>
          Inl (Error (''No applicable distance band to calculate with for rule: '' @ name this))
      | Some distanceBand \<Rightarrow>
          (case map_of (earnings distanceBand) fareEarnCategory of
             None \<Rightarrow> Inl TypeError
           | Some e \<Rightarrow>
               Inr (buildCalculationReturn this fareEarnCategory
                      (''Distance calculated to '' @ numberToString distance @ '' miles, '' @
                       notesForDistance numberToString distanceBand)
                      (qantasPoints e) (statusCredits e))))"

section \<open>IntraCountryRule\<close>

text \<open>The configured country is the field \<open>ruleCountry\<close> (\<^verbatim>\<open>this.country\<close>).\<close>

record 'd intraCountryRule = rule +
  ruleCountry :: string
  distanceRule :: "'d distanceRule"

definition IntraCountryRule ::
  "string \<Rightarrow> string \<Rightarrow> string \<Rightarrow> 'd distanceBand list \<Rightarrow> 'd intraCountryRule" where
  "IntraCountryRule n u c bands =
     \<lparr>name = n, ruleUrl = u, ruleCountry = c, distanceRule = DistanceRule n u bands\<rparr>"

definition IntraCountryRule_applies ::
  "(airport \<Rightarrow> airport \<Rightarrow> 'd) \<Rightarrow> ('d::linorder) intraCountryRule \<Rightarrow> segment \<Rightarrow> string \<Rightarrow> bool" where
  "IntraCountryRule_applies calcDistance this segment fareEarnCategory =
     (if country (fromAirport segment) \<noteq> ruleCountry this \<or>
         country (toAirport segment) \<noteq> ruleCountry this
      then False
      else DistanceRule_applies calcDistance (distanceRule this) segment fareEarnCategory)"

definition IntraCountryRule_calculate ::
  "(airport \<Rightarrow> airport \<Rightarrow> 'd) \<Rightarrow> ('d \<Rightarrow> string) \<Rightarrow> ('d::linorder) intraCountryRule \<Rightarrow>
     segment \<Rightarrow> string \<Rightarrow> error + calculationResult" where
  "IntraCountryRule_calculate calcDistance numberToString this segment fareEarnCategory =
     DistanceRule_calculate calcDistance numberToString (distanceRule this) segment
       fareEarnCategory"

section \<open>FareClassRule\<close>

text \<open>An entry of the fare class table: the earnings and the authored notes.\<close>

record fareClassEarning = qantasEarnings +
  calculationNotes :: string

record fareClassRule = rule +
  fareClassEarnings :: "fareClassEarning object"


definition FareClassRule_calculate ::
  "fareClassRule \<Rightarrow> segment \<Rightarrow> string \<Rightarrow> error + calculationResult" where
  "FareClassRule_calculate this segment fareEarnCategory =
     (case map_of (fareClassEarnings this) fareEarnCategory of
        None \<Rightarrow> Inl TypeError
      | Some e \<Rightarrow>
          Inr (buildCalculationReturn this fareEarnCategory (calculationNotes e)
                 (qantasPoints e) (statusCredits e)))"

section \<open>GeographicalRule\<close>

text \<open>
  A matched location \<^verbatim>\<open>{ type, value }\<close>; the variables \<^verbatim>\<open>origin\<close> and \<^verbatim>\<open>destination\<close>
  of the methods are \<open>orig\<close> and \<open>dest\<close>. Each side of the configuration has the optional
  properties \<^verbatim>\<open>city\<close>, \<^verbatim>\<open>country\<close> and \<^verbatim>\<open>region\<close>: sets on the origin side, objects keyed
  by the location and holding the earnings of each category on the destination side.
\<close>

record location =
  locType :: string
  locValue :: string

record originConfig =
  originCity :: "string list option"
  originCountry :: "string list option"
  originRegion :: "string list option"

record destinationConfig =
  destinationCity :: "qantasEarnings object object option"
  destinationCountry :: "qantasEarnings object object option"
  destinationRegion :: "qantasEarnings object object option"

record ruleConfig =
  origin :: originConfig
  destination :: destinationConfig

record geographicalRule = rule +
  ruleConfig :: ruleConfig

definition getOrigin ::
  "(string \<Rightarrow> string \<Rightarrow> bool) \<Rightarrow> geographicalRule \<Rightarrow> airport \<Rightarrow> location option" where
  "getOrigin isInRegion this airport =
     (let cfg = origin (ruleConfig this) in
      if (case originCity cfg of
            Some s \<Rightarrow> toLowerCase (city airport) \<in> set s | None \<Rightarrow> False)
      then Some \<lparr>locType = ''city'', locValue = toLowerCase (city airport)\<rparr>
      else if (case originCountry cfg of
                 Some s \<Rightarrow> toLowerCase (country airport) \<in> set s | None \<Rightarrow> False)
      then Some \<lparr>locType = ''country'', locValue = toLowerCase (country airport)\<rparr>
      else (case originRegion cfg of
              Some s \<Rightarrow>
                (case find (\<lambda>region. isInRegion (toLowerCase (iata airport)) region) s of
                   Some region \<Rightarrow> Some \<lparr>locType = ''region'', locValue = region\<rparr>
                 | None \<Rightarrow> None)
            | None \<Rightarrow> None))"

definition getDestination ::
  "(string \<Rightarrow> string \<Rightarrow> bool) \<Rightarrow> geographicalRule \<Rightarrow> airport \<Rightarrow> location option" where
  "getDestination isInRegion this airport =
     (let cfg = destination (ruleConfig this) in
      if (case destinationCity cfg of
            Some t \<Rightarrow> toLowerCase (city airport) \<in> set (keys t) | None \<Rightarrow> False)
      then Some \<lparr>locType = ''city'', locValue = toLowerCase (city airport)\<rparr>
      else if (case destinationCountry cfg of
                 Some t \<Rightarrow> toLowerCase (country airport) \<in> set (keys t) | None \<Rightarrow> False)
      then Some \<lparr>locType = ''country'', locValue = toLowerCase (country airport)\<rparr>
      else (case destinationRegion cfg of
              Some t \<Rightarrow>
                (case find (\<lambda>region. isInRegion (toLowerCase (iata airport)) region) (keys t) of
                   Some region \<Rightarrow> Some \<lparr>locType = ''region'', locValue = region\<rparr>
                 | None \<Rightarrow> None)
            | None \<Rightarrow> None))"

definition getOriginAndDestination ::
  "(string \<Rightarrow> string \<Rightarrow> bool) \<Rightarrow> geographicalRule \<Rightarrow> segment \<Rightarrow>
     location option \<times> location option" where
  "getOriginAndDestination isInRegion this segment =
     (let orig = getOrigin isInRegion this (fromAirport segment);
          dest = getDestination isInRegion this (toAirport segment) in
      if orig = None \<or> dest = None
      then (getOrigin isInRegion this (toAirport segment),
            getDestination isInRegion this (fromAirport segment))
      else (orig, dest))"

text \<open>
  \<^verbatim>\<open>_buildCalculationNotesInner\<close>; the argument \<open>None\<close> is \<^verbatim>\<open>null\<close>, whose property
  \<^verbatim>\<open>type\<close> cannot be read. \<^verbatim>\<open>a || b\<close> on strings is \<open>b\<close> when \<open>a\<close> is undefined or empty.
\<close>

definition buildCalculationNotesInner ::
  "string object \<Rightarrow> location option \<Rightarrow> error + string" where
  "buildCalculationNotesInner REGION_DISPLAY l =
     (case l of
        None \<Rightarrow> Inl TypeError
      | Some location \<Rightarrow>
          if locType location = ''airport'' then Inr (locValue location @ '' airport'')
          else if locType location = ''city'' then Inr (locValue location)
          else if locType location = ''country'' then Inr (locValue location)
          else if locType location = ''region'' then
            (case map_of REGION_DISPLAY (locValue location) of
               None \<Rightarrow> Inr (locValue location)
             | Some d \<Rightarrow> Inr (if d = [] then locValue location else d))
          else Inl (Error (''Cannot create calcluation notes for unknown type '' @
                           locType location)))"

definition buildCalculationNotes ::
  "string object \<Rightarrow> location option \<Rightarrow> location option \<Rightarrow> error + string" where
  "buildCalculationNotes REGION_DISPLAY orig dest =
     (case buildCalculationNotesInner REGION_DISPLAY orig of
        Inl e \<Rightarrow> Inl e
      | Inr a \<Rightarrow>
          (case buildCalculationNotesInner REGION_DISPLAY dest of
             Inl e \<Rightarrow> Inl e
           | Inr b \<Rightarrow> Inr (a @ '' to '' @ b)))"

text \<open>\<^verbatim>\<open>this.ruleConfig.destination[type]\<close>: the table of the destination side named \<open>type\<close>.\<close>

definition destinationTable ::
  "destinationConfig \<Rightarrow> string \<Rightarrow> qantasEarnings object object option" where
  "destinationTable cfg t =
     (if t = ''city'' then destinationCity cfg
      else if t = ''country'' then destinationCountry cfg
      else if t = ''region'' then destinationRegion cfg
      else None)"

definition GeographicalRule_applies ::
  "(string \<Rightarrow> string \<Rightarrow> bool) \<Rightarrow> geographicalRule \<Rightarrow> segment \<Rightarrow> string \<Rightarrow> error + bool" where
  "GeographicalRule_applies isInRegion this segment fareEarnCategory =
     (case getOriginAndDestination isInRegion this segment of
        (Some orig, Some dest) \<Rightarrow>
          (case destinationTable (destination (ruleConfig this)) (locType dest) of
             None \<Rightarrow> Inl TypeError
           | Some table \<Rightarrow>
               (case map_of table (locValue dest) of
                  None \<Rightarrow> Inl TypeError
                | Some es \<Rightarrow> Inr (fareEarnCategory \<in> set (keys es))))
      | _ \<Rightarrow> Inr False)"

definition GeographicalRule_calculate ::
  "(string \<Rightarrow> string \<Rightarrow> bool) \<Rightarrow> string object \<Rightarrow> geographicalRule \<Rightarrow> segment \<Rightarrow> string \<Rightarrow>
     error + calculationResult" where
  "GeographicalRule_calculate isInRegion REGION_DISPLAY this segment fareEarnCategory =
     (case getOriginAndDestination isInRegion this segment of
        (orig, None) \<Rightarrow> Inl TypeError
      | (orig, Some dest) \<Rightarrow>
          (case destinationTable (destination (ruleConfig this)) (locType dest) of
             None \<Rightarrow> Inl TypeError
           | Some table \<Rightarrow>
               (case buildCalculationNotes REGION_DISPLAY orig (Some dest) of
                  Inl e \<Rightarrow> Inl e
                | Inr notes \<Rightarrow>
                    (case map_of table (locValue dest) of
                       None \<Rightarrow> Inl TypeError
                     | Some es \<Rightarrow>
                         (case map_of es fareEarnCategory of
                            None \<Rightarrow> Inl TypeError
                          | Some e \<Rightarrow>
                              Inr (buildCalculationReturn this fareEarnCategory notes
                                     (qantasPoints e) (statusCredits e)))))))"

text \<open>The same leg flown the other way: \<^verbatim>\<open>fromAirport\<close> and \<^verbatim>\<open>toAirport\<close> swapped.\<close>

definition reversed :: "segment \<Rightarrow> segment" where
  "reversed segment = \<lparr>fromAirport = toAirport segment, toAirport = fromAirport segment\<rparr>"

section \<open>The shared contract\<close>



section \<open>parseEarningRates\<close>

text \<open>
  The characters \<^verbatim>\<open>\s\<close> matches and \<^verbatim>\<open>trim\<close> removes, among ASCII: tab, line feed,
  vertical tab, form feed, carriage return and space.
\<close>

definition isWhiteSpace :: "char \<Rightarrow> bool" where
  "isWhiteSpace c = (let n = (of_char c :: nat) in (9 \<le> n \<and> n \<le> 13) \<or> n = 32)"

definition trim :: "string \<Rightarrow> string" where
  "trim s = rev (dropWhile isWhiteSpace (rev (dropWhile isWhiteSpace s)))"

text \<open>\<^verbatim>\<open>.replace(/\,/gm, '')\<close> deletes every comma.\<close>

definition removeCommas :: "string \<Rightarrow> string" where
  "removeCommas s = filter (\<lambda>c. c \<noteq> CHR '','') s"

text \<open>\<^verbatim>\<open>.replace(/\s+/gm, ' ')\<close> puts one space for every maximal run of white space.\<close>

function collapseWhiteSpace :: "string \<Rightarrow> string" where
  "collapseWhiteSpace [] = []"
| "collapseWhiteSpace (c # cs) =
     (if isWhiteSpace c then CHR '' '' # collapseWhiteSpace (dropWhile isWhiteSpace cs)
      else c # collapseWhiteSpace cs)"
  by pat_completeness auto
termination
  by (relation "measure length") (auto simp: length_dropWhile_le less_Suc_eq_le)

text \<open>
  \<^verbatim>\<open>.split(' ')\<close>: the pieces between the spaces; the empty string has the one piece \<^verbatim>\<open>''\<close>.
\<close>

fun splitSpace :: "string \<Rightarrow> string list" where
  "splitSpace [] = [[]]"
| "splitSpace (c # cs) =
     (if c = CHR '' '' then [] # splitSpace cs
      else (case splitSpace cs of
              [] \<Rightarrow> [[c]]
            | t # ts \<Rightarrow> (c # t) # ts))"

text \<open>
  \<^verbatim>\<open>parseInt(string)\<close> without a radix, as ECMAScript defines it: leading white space is
  skipped, one sign is read, the prefix \<^verbatim>\<open>0x\<close> or \<^verbatim>\<open>0X\<close> selects radix 16, and the longest
  run of digits of the radix is the value; no digit gives NaN, here \<open>None\<close>. The value is
  an exact integer (a double is exact below \<open>2 ^ 53\<close>).
\<close>

definition digitValue :: "char \<Rightarrow> nat option" where
  "digitValue c =
     (let n = (of_char c :: nat) in
      if 48 \<le> n \<and> n \<le> 57 then Some (n - 48)
      else if 97 \<le> n \<and> n \<le> 102 then Some (n - 87)
      else if 65 \<le> n \<and> n \<le> 70 then Some (n - 55)
      else None)"

definition isRadixDigit :: "nat \<Rightarrow> char \<Rightarrow> bool" where
  "isRadixDigit R c = (case digitValue c of None \<Rightarrow> False | Some v \<Rightarrow> v < R)"

definition radixValue :: "nat \<Rightarrow> string \<Rightarrow> nat" where
  "radixValue R Z = foldl (\<lambda>acc c. acc * R + the (digitValue c)) 0 Z"

definition parseInt :: "string \<Rightarrow> int option" where
  "parseInt inputString =
     (let S = dropWhile isWhiteSpace inputString;
          sign = (if S \<noteq> [] \<and> hd S = CHR ''-'' then - 1 else (1::int));
          S = (if S \<noteq> [] \<and> (hd S = CHR ''+'' \<or> hd S = CHR ''-'') then tl S else S);
          hex = (take 2 S = ''0x'' \<or> take 2 S = ''0X'');
          R = (if hex then 16 else 10);
          S = (if hex then drop 2 S else S);
          Z = takeWhile (isRadixDigit R) S
      in if Z = [] then None else Some (sign * int (radixValue R Z)))"

text \<open>\<^verbatim>\<open>parseInt(x) || 0\<close>: NaN and zero are falsy.\<close>

definition orZero :: "int option \<Rightarrow> int" where
  "orZero v = (case v of None \<Rightarrow> 0 | Some n \<Rightarrow> if n = 0 then 0 else n)"

text \<open>
  \<^verbatim>\<open>tokens[index]\<close> as \<^verbatim>\<open>parseInt\<close> reads it: beyond the end of the array the element is
  \<^verbatim>\<open>undefined\<close>, which \<^verbatim>\<open>parseInt\<close> converts to the string \<^verbatim>\<open>undefined\<close>.
\<close>

definition tokenAt :: "string list \<Rightarrow> nat \<Rightarrow> string" where
  "tokenAt tokens index = (if index < length tokens then tokens ! index else ''undefined'')"

definition pointsPerFareclass :: "string \<Rightarrow> string list" where
  "pointsPerFareclass qantasPointsString =
     splitSpace (collapseWhiteSpace (removeCommas (trim qantasPointsString)))"

definition creditsPerFareclass :: "string \<Rightarrow> string list" where
  "creditsPerFareclass qantasCreditsString =
     splitSpace (collapseWhiteSpace (trim qantasCreditsString))"

text \<open>
  The \<^verbatim>\<open>forEach\<close> assigns \<^verbatim>\<open>retval[fareClass]\<close> for each label and its index in turn; an
  assignment to a label seen before replaces its value.
\<close>

definition parseEarningRates ::
  "string \<Rightarrow> string \<Rightarrow> string list \<Rightarrow> qantasEarnings object" where
  "parseEarningRates qantasPointsString qantasCreditsString fareClasses =
     fold (\<lambda>(fareClass, index) retval.
             AList.update fareClass
               (QantasEarnings
                  (orZero (parseInt (tokenAt (pointsPerFareclass qantasPointsString) index)))
                  (orZero (parseInt (tokenAt (creditsPerFareclass qantasCreditsString) index))))
               retval)
          (zip fareClasses [0 ..< length fareClasses]) []"

section \<open>Example configurations\<close>

definition SYD :: airport where
  "SYD = \<lparr>iata = ''SYD'', city = ''Sydney'', country = ''Australia''\<rparr>"

definition MEL :: airport where
  "MEL = \<lparr>iata = ''MEL'', city = ''Melbourne'', country = ''Australia''\<rparr>"

definition LAX :: airport where
  "LAX = \<lparr>iata = ''LAX'', city = ''Los Angeles'', country = ''United States''\<rparr>"

definition exampleDistance :: "airport \<Rightarrow> airport \<Rightarrow> int" where
  "exampleDistance a b =
     (if {iata a, iata b} = {''SYD'', ''MEL''} then 439
      else if {iata a, iata b} = {''SYD'', ''LAX''} then 7488
      else if {iata a, iata b} = {''MEL'', ''LAX''} then 7921
      else 0)"

definition exampleBands :: "int distanceBand list" where
  "exampleBands =
     [\<lparr>minDistance = 0, maxDistance = Some 750,
        earnings = [(''economy'', QantasEarnings 800 10)]\<rparr>,
      \<lparr>minDistance = 750, maxDistance = Some 1500,
        earnings = [(''economy'', QantasEarnings 1200 15)]\<rparr>,
      \<lparr>minDistance = 1500, maxDistance = None,
        earnings = [(''economy'', QantasEarnings 2000 20),
                    (''business'', QantasEarnings 4000 40)]\<rparr>]"




definition exampleDistanceRule :: "int distanceRule" where
  "exampleDistanceRule = DistanceRule ''Domestic'' ''https://example.org/domestic'' exampleBands"

definition exampleIntraCountryRule :: "int intraCountryRule" where
  "exampleIntraCountryRule =
     IntraCountryRule ''Domestic'' ''https://example.org/domestic'' ''Australia'' exampleBands"


text \<open>Sydney to Los Angeles, configured by city.\<close>

definition exampleCityRule :: geographicalRule where
  "exampleCityRule =
     \<lparr>name = ''Transpacific'', ruleUrl = ''https://example.org/transpacific'',
      ruleConfig =
        \<lparr>origin = \<lparr>originCity = Some [''sydney''], originCountry = None, originRegion = None\<rparr>,
         destination =
           \<lparr>destinationCity =
              Some [(''los angeles'',
                     [(''economy'', QantasEarnings 4500 45),
                      (''business'', QantasEarnings 9000 90)])],
            destinationCountry = None, destinationRegion = None\<rparr>\<rparr>\<rparr>"

text \<open>Both cities are origins and destinations, with earnings that differ.\<close>

definition exampleTwoWayRule :: geographicalRule where
  "exampleTwoWayRule =
     \<lparr>name = ''Shuttle'', ruleUrl = ''https://example.org/shuttle'',
      ruleConfig =
        \<lparr>origin = \<lparr>originCity = Some [''sydney'', ''melbourne''], originCountry = None,
                    originRegion = None\<rparr>,
         destination =
           \<lparr>destinationCity =
              Some [(''sydney'', [(''economy'', QantasEarnings 800 10)]),
                    (''melbourne'', [(''business'', QantasEarnings 1600 20)])],
            destinationCountry = None, destinationRegion = None\<rparr>\<rparr>\<rparr>"

text \<open>An origin country and destination regions, with a region lookup and display names.\<close>

definition exampleIsInRegion :: "string \<Rightarrow> string \<Rightarrow> bool" where
  "exampleIsInRegion iataCode region =
     ((iataCode = ''lax'' \<and> region = ''northamerica'') \<or>
      (iataCode = ''lax'' \<and> region = ''westcoast'') \<or>
      (iataCode = ''syd'' \<and> region = ''oceania''))"

definition exampleRegionDisplay :: "string object" where
  "exampleRegionDisplay = [(''northamerica'', ''North America'')]"

definition exampleRegionRule :: geographicalRule where
  "exampleRegionRule =
     \<lparr>name = ''Regions'', ruleUrl = ''https://example.org/regions'',
      ruleConfig =
        \<lparr>origin = \<lparr>originCity = None, originCountry = Some [''australia''],
                    originRegion = None\<rparr>,
         destination =
           \<lparr>destinationCity = None, destinationCountry = None,
            destinationRegion =
              Some [(''europe'', [(''economy'', QantasEarnings 6000 60)]),
                    (''northamerica'', [(''economy'', QantasEarnings 4500 45)]),
                    (''westcoast'', [(''economy'', QantasEarnings 4000 40)])]\<rparr>\<rparr>\<rparr>"

section \<open>DistanceRule: the band of a distance\<close>

lemma find_append_first:
  "\<forall>x\<in>set pre. \<not> P x \<Longrightarrow> P b \<Longrightarrow> find P (pre @ b # post) = Some b"
  by (induction pre) auto

text \<open>
  Claim C1. \<^verbatim>\<open>_getDistanceBand(d)\<close> returns the first band, in the order of the list, whose
  \<^verbatim>\<open>minDistance\<close> is strictly below \<open>d\<close> and whose \<^verbatim>\<open>maxDistance\<close>, when it has one, is at
  least \<open>d\<close>; it returns \<^verbatim>\<open>undefined\<close> exactly when no band of the list is such a band. A
  band whose \<^verbatim>\<open>maxDistance\<close> is \<open>d\<close> itself is matched (when no earlier band is), and a band
  whose \<^verbatim>\<open>minDistance\<close> is \<open>d\<close> itself is never the result.
\<close>

theorem getDistanceBand_first_match:
  fixes this :: "('d::linorder) distanceRule"
  shows
    "(getDistanceBand this d = Some b \<longleftrightarrow>
        (\<exists>i<length (distanceBands this).
           distanceBands this ! i = b \<and>
           minDistance b < d \<and> (\<forall>m. maxDistance b = Some m \<longrightarrow> d \<le> m) \<and>
           (\<forall>j<i. \<not> (minDistance (distanceBands this ! j) < d \<and>
                       (\<forall>m. maxDistance (distanceBands this ! j) = Some m \<longrightarrow> d \<le> m))))) \<and>
     (getDistanceBand this d = None \<longleftrightarrow>
        (\<forall>x\<in>set (distanceBands this).
           \<not> (minDistance x < d \<and> (\<forall>m. maxDistance x = Some m \<longrightarrow> d \<le> m)))) \<and>
     (distanceBands this = pre @ b # post \<and>
      (\<forall>x\<in>set pre. \<not> (minDistance x < d \<and> (\<forall>m. maxDistance x = Some m \<longrightarrow> d \<le> m))) \<and>
      minDistance b < d \<and> maxDistance b = Some d \<longrightarrow>
        getDistanceBand this d = Some b) \<and>
     (minDistance b = d \<longrightarrow> getDistanceBand this d \<noteq> Some b)"
proof -
  let ?P = "\<lambda>x::'d distanceBand.
              minDistance x < d \<and> (maxDistance x = None \<or> d \<le> the (maxDistance x))"
  have P: "?P x \<longleftrightarrow> minDistance x < d \<and> (\<forall>m. maxDistance x = Some m \<longrightarrow> d \<le> m)" for x
    by (cases "maxDistance x") auto
  have 1: "getDistanceBand this d = Some b \<longleftrightarrow>
        (\<exists>i<length (distanceBands this).
           distanceBands this ! i = b \<and>
           minDistance b < d \<and> (\<forall>m. maxDistance b = Some m \<longrightarrow> d \<le> m) \<and>
           (\<forall>j<i. \<not> (minDistance (distanceBands this ! j) < d \<and>
                       (\<forall>m. maxDistance (distanceBands this ! j) = Some m \<longrightarrow> d \<le> m))))"
    unfolding getDistanceBand_def find_Some_iff P by blast
  have 2: "getDistanceBand this d = None \<longleftrightarrow>
        (\<forall>x\<in>set (distanceBands this).
           \<not> (minDistance x < d \<and> (\<forall>m. maxDistance x = Some m \<longrightarrow> d \<le> m)))"
    unfolding getDistanceBand_def find_None_iff P by blast
  have 3: "getDistanceBand this d = Some b"
    if "distanceBands this = pre @ b # post"
      and "\<forall>x\<in>set pre. \<not> (minDistance x < d \<and> (\<forall>m. maxDistance x = Some m \<longrightarrow> d \<le> m))"
      and "minDistance b < d" and "maxDistance b = Some d"
  proof -
    have "\<forall>x\<in>set pre. \<not> ?P x" using that(2) P by blast
    moreover have "?P b" using that(3,4) by simp
    ultimately show ?thesis
      unfolding getDistanceBand_def that(1) by (rule find_append_first)
  qed
  have 4: "getDistanceBand this d \<noteq> Some b" if "minDistance b = d"
  proof
    assume "getDistanceBand this d = Some b"
    then have "minDistance b < d" using 1 by blast
    with that show False by simp
  qed
  from 1 2 3 4 show ?thesis by blast
qed

text \<open>
  On the example bands, 750 miles is the upper end of the first band and the lower end of
  the second: the first band is the result. No band holds a distance of 0.
\<close>

theorem getDistanceBand_first_match_witness:
  "getDistanceBand exampleDistanceRule 750 = Some (exampleBands ! 0) \<and>
   getDistanceBand exampleDistanceRule 750 \<noteq> Some (exampleBands ! 1) \<and>
   minDistance (exampleBands ! 1) = 750 \<and> maxDistance (exampleBands ! 0) = Some 750 \<and>
   getDistanceBand exampleDistanceRule 0 = None"
proof -
  have bands: "distanceBands exampleDistanceRule = [] @ (exampleBands ! 0) # tl exampleBands"
    by (simp add: exampleDistanceRule_def DistanceRule_def exampleBands_def)
  have a: "getDistanceBand exampleDistanceRule 750 = Some (exampleBands ! 0)"
    using getDistanceBand_first_match
      [of exampleDistanceRule 750 "exampleBands ! 0" "[]" "tl exampleBands"] bands
    by (simp add: exampleBands_def)
  have b: "getDistanceBand exampleDistanceRule 750 \<noteq> Some (exampleBands ! 1)"
    using getDistanceBand_first_match [of exampleDistanceRule 750 "exampleBands ! 1" "[]" "[]"]
    by (simp add: exampleBands_def)
  have c: "getDistanceBand exampleDistanceRule 0 = None"
    using getDistanceBand_first_match [of exampleDistanceRule 0 "exampleBands ! 0" "[]" "[]"]
    by (simp add: exampleDistanceRule_def DistanceRule_def exampleBands_def)
  show ?thesis using a b c by (simp add: exampleBands_def)
qed

section \<open>IntraCountryRule\<close>

text \<open>
  Claim C4. For an IntraCountryRule built for the country \<open>C\<close>: on a segment one of whose
  airports has a country other than \<open>C\<close>, \<^verbatim>\<open>applies\<close> is false, whatever the distance
  function computes; on a segment both of whose airports have the country \<open>C\<close>, \<^verbatim>\<open>applies\<close>
  is what \<^verbatim>\<open>applies\<close> of the inner DistanceRule is, namely true exactly when a band is
  found for the distance and the category is a key of the earnings of that band.
\<close>

theorem IntraCountryRule_applies_gate:
  fixes bands :: "('d::linorder) distanceBand list"
  shows
    "(country (fromAirport segment) \<noteq> C \<or> country (toAirport segment) \<noteq> C \<longrightarrow>
        IntraCountryRule_applies calcDistance (IntraCountryRule n u C bands) segment
          fareEarnCategory = False) \<and>
     (country (fromAirport segment) = C \<and> country (toAirport segment) = C \<longrightarrow>
        IntraCountryRule_applies calcDistance (IntraCountryRule n u C bands) segment
          fareEarnCategory =
        DistanceRule_applies calcDistance (DistanceRule n u bands) segment fareEarnCategory \<and>
        (DistanceRule_applies calcDistance (DistanceRule n u bands) segment fareEarnCategory
           \<longleftrightarrow>
         (\<exists>b. getDistanceBand (DistanceRule n u bands)
                 (calcDistance (fromAirport segment) (toAirport segment)) = Some b \<and>
               fareEarnCategory \<in> set (keys (earnings b)))))"
  by (auto simp: IntraCountryRule_applies_def IntraCountryRule_def DistanceRule_applies_def
      split: option.splits)

theorem IntraCountryRule_applies_gate_witness:
  "IntraCountryRule_applies exampleDistance exampleIntraCountryRule
     \<lparr>fromAirport = SYD, toAirport = LAX\<rparr> ''economy'' = False \<and>
   country LAX \<noteq> ''Australia'' \<and>
   DistanceRule_applies exampleDistance exampleDistanceRule
     \<lparr>fromAirport = SYD, toAirport = LAX\<rparr> ''economy'' = True \<and>
   country SYD = ''Australia'' \<and> country MEL = ''Australia'' \<and>
   IntraCountryRule_applies exampleDistance exampleIntraCountryRule
     \<lparr>fromAirport = SYD, toAirport = MEL\<rparr> ''economy'' = True \<and>
   IntraCountryRule_applies exampleDistance exampleIntraCountryRule
     \<lparr>fromAirport = SYD, toAirport = MEL\<rparr> ''business'' = False"
proof -
  have a: "IntraCountryRule_applies exampleDistance exampleIntraCountryRule
             \<lparr>fromAirport = SYD, toAirport = LAX\<rparr> ''economy'' = False"
    using IntraCountryRule_applies_gate
      [of "\<lparr>fromAirport = SYD, toAirport = LAX\<rparr>" "''Australia''" exampleDistance
          "''Domestic''" "''https://example.org/domestic''" exampleBands "''economy''"]
    by (simp add: exampleIntraCountryRule_def SYD_def LAX_def)
  have d: "DistanceRule_applies exampleDistance exampleDistanceRule
             \<lparr>fromAirport = SYD, toAirport = s\<rparr> c =
           (c \<in> set (keys (earnings (exampleBands ! i))))"
    if "getDistanceBand exampleDistanceRule (exampleDistance SYD s) = Some (exampleBands ! i)"
    for s c i
    using that by (simp add: DistanceRule_applies_def)
  have g1: "getDistanceBand exampleDistanceRule (exampleDistance SYD LAX) = Some (exampleBands ! 2)"
    by (simp add: getDistanceBand_def exampleDistanceRule_def DistanceRule_def exampleBands_def
        exampleDistance_def SYD_def LAX_def doubleton_eq_iff)
  have g2: "getDistanceBand exampleDistanceRule (exampleDistance SYD MEL) = Some (exampleBands ! 0)"
    by (simp add: getDistanceBand_def exampleDistanceRule_def DistanceRule_def exampleBands_def
        exampleDistance_def SYD_def MEL_def doubleton_eq_iff)
  have b: "DistanceRule_applies exampleDistance exampleDistanceRule
             \<lparr>fromAirport = SYD, toAirport = LAX\<rparr> ''economy'' = True"
    by (simp add: d [OF g1] exampleBands_def keys_def)
  have c: "IntraCountryRule_applies exampleDistance exampleIntraCountryRule
             \<lparr>fromAirport = SYD, toAirport = MEL\<rparr> cat =
           DistanceRule_applies exampleDistance exampleDistanceRule
             \<lparr>fromAirport = SYD, toAirport = MEL\<rparr> cat" for cat
    using IntraCountryRule_applies_gate
      [of "\<lparr>fromAirport = SYD, toAirport = MEL\<rparr>" "''Australia''" exampleDistance
          "''Domestic''" "''https://example.org/domestic''" exampleBands cat]
    by (simp add: exampleIntraCountryRule_def exampleDistanceRule_def SYD_def MEL_def)
  have e: "IntraCountryRule_applies exampleDistance exampleIntraCountryRule
             \<lparr>fromAirport = SYD, toAirport = MEL\<rparr> ''economy'' = True"
    by (simp add: c d [OF g2] exampleBands_def keys_def)
  have f: "IntraCountryRule_applies exampleDistance exampleIntraCountryRule
             \<lparr>fromAirport = SYD, toAirport = MEL\<rparr> ''business'' = False"
    by (simp add: c d [OF g2] exampleBands_def keys_def)
  have g: "country LAX \<noteq> ''Australia'' \<and> country SYD = ''Australia'' \<and>
           country MEL = ''Australia''"
    by (simp add: SYD_def MEL_def LAX_def)
  from a b e f g show ?thesis by blast
qed

section \<open>DistanceRule: calculate\<close>

lemma example_band_SYD_MEL:
  "getDistanceBand exampleDistanceRule (exampleDistance SYD MEL) = Some (exampleBands ! 0)"
  by (simp add: getDistanceBand_def exampleDistanceRule_def DistanceRule_def exampleBands_def
      exampleDistance_def SYD_def MEL_def doubleton_eq_iff)






section \<open>IntraCountryRule: letter case of the country\<close>

text \<open>
  Claim C3. \<^verbatim>\<open>IntraCountryRule.applies\<close> compares the country of each airport with the
  configured country by \<^verbatim>\<open>!==\<close>, without lower-casing either side. The example rule is
  configured with \<^verbatim>\<open>Australia\<close>: it applies to Sydney - Melbourne when the airports carry
  \<^verbatim>\<open>Australia\<close> and not when they carry \<^verbatim>\<open>AUSTRALIA\<close>, which differs in letter case only.
  \<^verbatim>\<open>GeographicalRule._getOrigin\<close> lower-cases the country of the airport and matches both.
\<close>

theorem IntraCountryRule_applies_case_sensitive:
  "toLowerCase (country (SYD\<lparr>country := ''AUSTRALIA''\<rparr>)) = toLowerCase (country SYD) \<and>
   toLowerCase (country (MEL\<lparr>country := ''AUSTRALIA''\<rparr>)) = toLowerCase (country MEL) \<and>
   country SYD = ruleCountry exampleIntraCountryRule \<and>
   country MEL = ruleCountry exampleIntraCountryRule \<and>
   IntraCountryRule_applies exampleDistance exampleIntraCountryRule
     \<lparr>fromAirport = SYD, toAirport = MEL\<rparr> ''economy'' = True \<and>
   IntraCountryRule_applies exampleDistance exampleIntraCountryRule
     \<lparr>fromAirport = SYD\<lparr>country := ''AUSTRALIA''\<rparr>,
      toAirport = MEL\<lparr>country := ''AUSTRALIA''\<rparr>\<rparr> ''economy'' = False \<and>
   getOrigin exampleIsInRegion exampleRegionRule (SYD\<lparr>country := ''AUSTRALIA''\<rparr>) =
     getOrigin exampleIsInRegion exampleRegionRule SYD \<and>
   getOrigin exampleIsInRegion exampleRegionRule SYD =
     Some \<lparr>locType = ''country'', locValue = ''australia''\<rparr>"
proof -
  have a: "IntraCountryRule_applies exampleDistance exampleIntraCountryRule
     \<lparr>fromAirport = SYD, toAirport = MEL\<rparr> ''economy'' = True"
  proof -
    have "DistanceRule_applies exampleDistance exampleDistanceRule
            \<lparr>fromAirport = SYD, toAirport = MEL\<rparr> ''economy''"
      by (simp add: DistanceRule_applies_def example_band_SYD_MEL exampleBands_def keys_def)
    moreover have "distanceRule exampleIntraCountryRule = exampleDistanceRule"
      by (simp add: exampleIntraCountryRule_def IntraCountryRule_def exampleDistanceRule_def)
    moreover have "country SYD = ruleCountry exampleIntraCountryRule \<and>
                   country MEL = ruleCountry exampleIntraCountryRule"
      by (simp add: SYD_def MEL_def exampleIntraCountryRule_def IntraCountryRule_def)
    ultimately show ?thesis by (simp add: IntraCountryRule_applies_def)
  qed
  have b: "IntraCountryRule_applies exampleDistance exampleIntraCountryRule
     \<lparr>fromAirport = SYD\<lparr>country := ''AUSTRALIA''\<rparr>,
      toAirport = MEL\<lparr>country := ''AUSTRALIA''\<rparr>\<rparr> ''economy'' = False"
    by (simp add: IntraCountryRule_applies_def exampleIntraCountryRule_def IntraCountryRule_def)
  have c: "toLowerCase ''AUSTRALIA'' = ''australia'' \<and> toLowerCase ''Australia'' = ''australia''"
    by (simp add: toLowerCase_def toLowerCaseChar_def char_of_eq_iff)
  have d: "getOrigin exampleIsInRegion exampleRegionRule (SYD\<lparr>country := ''AUSTRALIA''\<rparr>) =
     Some \<lparr>locType = ''country'', locValue = ''australia''\<rparr>"
    by (simp add: getOrigin_def exampleRegionRule_def c SYD_def)
  have e: "getOrigin exampleIsInRegion exampleRegionRule SYD =
     Some \<lparr>locType = ''country'', locValue = ''australia''\<rparr>"
    by (simp add: getOrigin_def exampleRegionRule_def c SYD_def)
  have f: "country SYD = ''Australia'' \<and> country MEL = ''Australia'' \<and> ruleCountry exampleIntraCountryRule = ''Australia''"
    by (simp add: SYD_def MEL_def exampleIntraCountryRule_def IntraCountryRule_def)
  show ?thesis using a b c d e f by simp
qed

text \<open>The two results differ, so the equality the claim states fails on this segment.\<close>

theorem IntraCountryRule_applies_case_sensitive_witness:
  "IntraCountryRule_applies exampleDistance exampleIntraCountryRule
     \<lparr>fromAirport = SYD\<lparr>country := ''AUSTRALIA''\<rparr>,
      toAirport = MEL\<lparr>country := ''AUSTRALIA''\<rparr>\<rparr> ''economy'' \<noteq>
   IntraCountryRule_applies exampleDistance exampleIntraCountryRule
     \<lparr>fromAirport = SYD, toAirport = MEL\<rparr> ''economy''"
  using IntraCountryRule_applies_case_sensitive by simp

section \<open>GeographicalRule: resolving the two sides\<close>

lemma map_of_key: "k \<in> set (keys t) \<Longrightarrow> \<exists>v. map_of t k = Some v"
  by (cases "map_of t k") (auto simp: keys_def map_of_eq_None_iff)

lemma find_Some_mem: "find P xs = Some x \<Longrightarrow> x \<in> set xs \<and> P x"
  by (auto simp: find_Some_iff)


lemma getOrigin_shape:
  assumes "getOrigin isInRegion this airport = Some l"
  shows "(locType l = ''city'' \<and> locValue l = toLowerCase (city airport)) \<or>
         (locType l = ''country'' \<and> locValue l = toLowerCase (country airport)) \<or>
         (locType l = ''region'' \<and> isInRegion (toLowerCase (iata airport)) (locValue l))"
  using assms
  by (auto simp: getOrigin_def Let_def split: if_splits option.splits dest!: find_Some_mem)

lemma getDestination_shape:
  assumes "getDestination isInRegion this airport = Some l"
  shows "(locType l = ''city'' \<and> locValue l = toLowerCase (city airport)) \<or>
         (locType l = ''country'' \<and> locValue l = toLowerCase (country airport)) \<or>
         (locType l = ''region'' \<and> isInRegion (toLowerCase (iata airport)) (locValue l))"
  using assms
  by (auto simp: getDestination_def Let_def split: if_splits option.splits dest!: find_Some_mem)

lemma getOriginAndDestination_cases:
  "getOriginAndDestination isInRegion this segment =
     (getOrigin isInRegion this (fromAirport segment),
      getDestination isInRegion this (toAirport segment)) \<and>
   getOrigin isInRegion this (fromAirport segment) \<noteq> None \<and>
   getDestination isInRegion this (toAirport segment) \<noteq> None
   \<or>
   getOriginAndDestination isInRegion this segment =
     (getOrigin isInRegion this (toAirport segment),
      getDestination isInRegion this (fromAirport segment)) \<and>
   (getOrigin isInRegion this (fromAirport segment) = None \<or>
    getDestination isInRegion this (toAirport segment) = None)"
  by (simp add: getOriginAndDestination_def Let_def)


lemma example_lower:
  "toLowerCase (city SYD) = ''sydney'' \<and> toLowerCase (country SYD) = ''australia'' \<and>
   toLowerCase (iata SYD) = ''syd'' \<and>
   toLowerCase (city MEL) = ''melbourne'' \<and> toLowerCase (country MEL) = ''australia'' \<and>
   toLowerCase (iata MEL) = ''mel'' \<and>
   toLowerCase (city LAX) = ''los angeles'' \<and> toLowerCase (country LAX) = ''united states'' \<and>
   toLowerCase (iata LAX) = ''lax''"
  by (simp add: SYD_def MEL_def LAX_def toLowerCase_def toLowerCaseChar_def char_of_eq_iff)

lemma exampleCityRule_locations:
  "getOrigin isInRegion exampleCityRule SYD = Some \<lparr>locType = ''city'', locValue = ''sydney''\<rparr> \<and>
   getOrigin isInRegion exampleCityRule LAX = None \<and>
   getOrigin isInRegion exampleCityRule MEL = None \<and>
   getDestination isInRegion exampleCityRule LAX =
     Some \<lparr>locType = ''city'', locValue = ''los angeles''\<rparr> \<and>
   getDestination isInRegion exampleCityRule SYD = None"
  by (simp add: getOrigin_def getDestination_def exampleCityRule_def example_lower keys_def)

lemma exampleTwoWayRule_locations:
  "getOrigin isInRegion exampleTwoWayRule SYD = Some \<lparr>locType = ''city'', locValue = ''sydney''\<rparr> \<and>
   getOrigin isInRegion exampleTwoWayRule MEL =
     Some \<lparr>locType = ''city'', locValue = ''melbourne''\<rparr> \<and>
   getDestination isInRegion exampleTwoWayRule SYD =
     Some \<lparr>locType = ''city'', locValue = ''sydney''\<rparr> \<and>
   getDestination isInRegion exampleTwoWayRule MEL =
     Some \<lparr>locType = ''city'', locValue = ''melbourne''\<rparr>"
  by (simp add: getOrigin_def getDestination_def exampleTwoWayRule_def example_lower keys_def)

lemma exampleRegionRule_locations:
  "getOrigin exampleIsInRegion exampleRegionRule SYD =
     Some \<lparr>locType = ''country'', locValue = ''australia''\<rparr> \<and>
   getDestination exampleIsInRegion exampleRegionRule LAX =
     Some \<lparr>locType = ''region'', locValue = ''northamerica''\<rparr>"
  by (simp add: getOrigin_def getDestination_def exampleRegionRule_def example_lower keys_def
      exampleIsInRegion_def)

lemma exampleRegionRule_resolved:
  "getOriginAndDestination exampleIsInRegion exampleRegionRule
     \<lparr>fromAirport = SYD, toAirport = LAX\<rparr> =
     (Some \<lparr>locType = ''country'', locValue = ''australia''\<rparr>,
      Some \<lparr>locType = ''region'', locValue = ''northamerica''\<rparr>)"
  by (simp add: getOriginAndDestination_def exampleRegionRule_locations)

lemma exampleRegionRule_applies:
  "GeographicalRule_applies exampleIsInRegion exampleRegionRule
     \<lparr>fromAirport = SYD, toAirport = LAX\<rparr> ''economy'' = Inr True"
proof -
  have "destinationTable (destination (ruleConfig exampleRegionRule)) ''region'' =
          Some [(''europe'', [(''economy'', QantasEarnings 6000 60)]),
                (''northamerica'', [(''economy'', QantasEarnings 4500 45)]),
                (''westcoast'', [(''economy'', QantasEarnings 4000 40)])]"
    by (simp add: exampleRegionRule_def destinationTable_def)
  then show ?thesis
    by (simp add: GeographicalRule_applies_def exampleRegionRule_resolved keys_def)
qed

lemma buildCalculationNotesInner_known:
  assumes "locType l = ''city'' \<or> locType l = ''country'' \<or> locType l = ''region''"
  shows "\<exists>a. buildCalculationNotesInner REGION_DISPLAY (Some l) = Inr a"
  using assms by (auto simp: buildCalculationNotesInner_def split: option.splits)

section \<open>The shared contract: applies\<close>



section \<open>GeographicalRule: direction\<close>

text \<open>
  Claim C2, as the code has it. \<^verbatim>\<open>_getOriginAndDestination\<close> reads the segment forwards
  first and swaps the airports only when the forward reading leaves a side unresolved.
  When at most one of the two readings resolves both sides, \<^verbatim>\<open>applies\<close> returns the same
  for the segment and for the reversed segment, and when it returns true the matched
  origin and destination and the whole result of \<^verbatim>\<open>calculate\<close> are the same for both.
\<close>

theorem GeographicalRule_direction:
  assumes "\<not> (getOrigin isInRegion this (fromAirport segment) \<noteq> None \<and>
              getDestination isInRegion this (toAirport segment) \<noteq> None \<and>
              getOrigin isInRegion this (toAirport segment) \<noteq> None \<and>
              getDestination isInRegion this (fromAirport segment) \<noteq> None)"
  shows "GeographicalRule_applies isInRegion this (reversed segment) fareEarnCategory =
           GeographicalRule_applies isInRegion this segment fareEarnCategory \<and>
         (GeographicalRule_applies isInRegion this segment fareEarnCategory = Inr True \<longrightarrow>
            getOriginAndDestination isInRegion this (reversed segment) =
              getOriginAndDestination isInRegion this segment \<and>
            GeographicalRule_calculate isInRegion REGION_DISPLAY this (reversed segment)
              fareEarnCategory =
              GeographicalRule_calculate isInRegion REGION_DISPLAY this segment
                fareEarnCategory)"
proof -
  let ?of = "getOrigin isInRegion this (fromAirport segment)"
  let ?dt = "getDestination isInRegion this (toAirport segment)"
  let ?ot = "getOrigin isInRegion this (toAirport segment)"
  let ?df = "getDestination isInRegion this (fromAirport segment)"
  have fwd: "getOriginAndDestination isInRegion this segment =
               (if ?of = None \<or> ?dt = None then (?ot, ?df) else (?of, ?dt))"
    by (simp add: getOriginAndDestination_def Let_def)
  have bwd: "getOriginAndDestination isInRegion this (reversed segment) =
               (if ?ot = None \<or> ?df = None then (?of, ?dt) else (?ot, ?df))"
    by (simp add: getOriginAndDestination_def Let_def reversed_def)
  show ?thesis
  proof (cases "?of \<noteq> None \<and> ?dt \<noteq> None")
    case True
    with assms have "?ot = None \<or> ?df = None" by blast
    with True have "getOriginAndDestination isInRegion this (reversed segment) =
                 getOriginAndDestination isInRegion this segment"
      unfolding fwd bwd by auto
    then show ?thesis
      by (simp add: GeographicalRule_applies_def GeographicalRule_calculate_def)
  next
    case False
    note forward = this
    show ?thesis
    proof (cases "?ot \<noteq> None \<and> ?df \<noteq> None")
      case True
      with forward have "getOriginAndDestination isInRegion this (reversed segment) =
                   getOriginAndDestination isInRegion this segment"
        unfolding fwd bwd by auto
      then show ?thesis
        by (simp add: GeographicalRule_applies_def GeographicalRule_calculate_def)
    next
      case False
      with forward have
        "GeographicalRule_applies isInRegion this segment fareEarnCategory = Inr False"
        "GeographicalRule_applies isInRegion this (reversed segment) fareEarnCategory =
           Inr False"
        unfolding GeographicalRule_applies_def fwd bwd by (auto split: option.splits)
      then show ?thesis by simp
    qed
  qed
qed

theorem GeographicalRule_direction_witness:
  "getOrigin exampleIsInRegion exampleCityRule (toAirport \<lparr>fromAirport = SYD, toAirport = LAX\<rparr>)
     = None \<and>
   GeographicalRule_applies exampleIsInRegion exampleCityRule
     (reversed \<lparr>fromAirport = SYD, toAirport = LAX\<rparr>) ''economy'' = Inr True \<and>
   GeographicalRule_calculate exampleIsInRegion exampleRegionDisplay exampleCityRule
     (reversed \<lparr>fromAirport = SYD, toAirport = LAX\<rparr>) ''economy'' =
     Inr \<lparr>resRule = ''Transpacific'', resRuleUrl = ''https://example.org/transpacific'',
          resFareEarnCategory = ''economy'', resNotes = ''sydney to los angeles'',
          resQantasPoints = 4500, resStatusCredits = 45\<rparr>"
proof -
  let ?s = "\<lparr>fromAirport = SYD, toAirport = LAX\<rparr>"
  have od: "getOriginAndDestination exampleIsInRegion exampleCityRule ?s =
              (Some \<lparr>locType = ''city'', locValue = ''sydney''\<rparr>,
               Some \<lparr>locType = ''city'', locValue = ''los angeles''\<rparr>)"
    by (simp add: getOriginAndDestination_def exampleCityRule_locations)
  have ap: "GeographicalRule_applies exampleIsInRegion exampleCityRule ?s ''economy'' = Inr True"
    by (simp add: GeographicalRule_applies_def od)
       (simp add: exampleCityRule_def destinationTable_def keys_def)
  have ca: "GeographicalRule_calculate exampleIsInRegion exampleRegionDisplay exampleCityRule ?s
              ''economy'' =
            Inr \<lparr>resRule = ''Transpacific'', resRuleUrl = ''https://example.org/transpacific'',
                 resFareEarnCategory = ''economy'', resNotes = ''sydney to los angeles'',
                 resQantasPoints = 4500, resStatusCredits = 45\<rparr>"
  proof -
    have "buildCalculationNotes exampleRegionDisplay
            (Some \<lparr>locType = ''city'', locValue = ''sydney''\<rparr>)
            (Some \<lparr>locType = ''city'', locValue = ''los angeles''\<rparr>) =
          Inr ''sydney to los angeles''"
      by (simp add: buildCalculationNotes_def buildCalculationNotesInner_def)
    moreover have "destinationTable (destination (ruleConfig exampleCityRule)) ''city'' =
          Some [(''los angeles'',
                 [(''economy'', QantasEarnings 4500 45),
                  (''business'', QantasEarnings 9000 90)])]"
      by (simp add: exampleCityRule_def destinationTable_def)
    moreover have "name exampleCityRule = ''Transpacific'' \<and>
                   ruleUrl exampleCityRule = ''https://example.org/transpacific''"
      by (simp add: exampleCityRule_def)
    ultimately show ?thesis
      by (simp add: GeographicalRule_calculate_def od buildCalculationReturn_def
          QantasEarnings_def)
  qed
  have h: "getOrigin exampleIsInRegion exampleCityRule (toAirport ?s) = None"
    by (simp add: exampleCityRule_locations)
  show ?thesis
    using GeographicalRule_direction
      [where isInRegion = exampleIsInRegion and this = exampleCityRule and segment = ?s and
         fareEarnCategory = "''economy''" and REGION_DISPLAY = exampleRegionDisplay]
      h ap ca
    by simp
qed

text \<open>
  When both readings resolve, each direction keeps its own forward reading. In the example
  both cities are origins and destinations, and only Melbourne has earnings for
  \<^verbatim>\<open>business\<close>: the rule applies to Sydney - Melbourne and not to Melbourne - Sydney.
\<close>

theorem GeographicalRule_direction_counterexample:
  "GeographicalRule_applies exampleIsInRegion exampleTwoWayRule
     \<lparr>fromAirport = SYD, toAirport = MEL\<rparr> ''business'' = Inr True \<and>
   GeographicalRule_applies exampleIsInRegion exampleTwoWayRule
     (reversed \<lparr>fromAirport = SYD, toAirport = MEL\<rparr>) ''business'' = Inr False"
  by (simp add: GeographicalRule_applies_def getOriginAndDestination_def reversed_def
      exampleTwoWayRule_locations)
     (simp add: exampleTwoWayRule_def destinationTable_def keys_def)

section \<open>GeographicalRule: the notes of a result\<close>

text \<open>
  Claim C6. When \<^verbatim>\<open>applies\<close> is true, \<^verbatim>\<open>calculate\<close> returns a result whose notes are the
  rendering of the origin, \<^verbatim>\<open> to \<close> and the rendering of the destination. A location
  matched by city or country has the lower-cased city or country of the airport as its
  value and renders as this value; a region renders as its non-empty entry of
  \<^verbatim>\<open>REGION_DISPLAY\<close>, and as the region key itself when it has no entry; a location of a
  type other than \<^verbatim>\<open>airport\<close>, \<^verbatim>\<open>city\<close>, \<^verbatim>\<open>country\<close> and \<^verbatim>\<open>region\<close> makes the rendering
  throw an \<^verbatim>\<open>Error\<close> whose message ends with the type.
\<close>

theorem GeographicalRule_calculate_notes:
  "(GeographicalRule_applies isInRegion this segment fareEarnCategory = Inr True \<longrightarrow>
      (\<exists>orig dest a b res.
         getOriginAndDestination isInRegion this segment = (Some orig, Some dest) \<and>
         buildCalculationNotesInner REGION_DISPLAY (Some orig) = Inr a \<and>
         buildCalculationNotesInner REGION_DISPLAY (Some dest) = Inr b \<and>
         GeographicalRule_calculate isInRegion REGION_DISPLAY this segment fareEarnCategory =
           Inr res \<and>
         resNotes res = a @ '' to '' @ b)) \<and>
   (getOrigin isInRegion this airport = Some l \<or>
    getDestination isInRegion this airport = Some l \<longrightarrow>
      locType l = ''city'' \<and> locValue l = toLowerCase (city airport) \<or>
      locType l = ''country'' \<and> locValue l = toLowerCase (country airport) \<or>
      locType l = ''region'' \<and> isInRegion (toLowerCase (iata airport)) (locValue l)) \<and>
   (locType l = ''city'' \<or> locType l = ''country'' \<longrightarrow>
      buildCalculationNotesInner REGION_DISPLAY (Some l) = Inr (locValue l)) \<and>
   (locType l = ''region'' \<and> map_of REGION_DISPLAY (locValue l) = Some d \<and> d \<noteq> [] \<longrightarrow>
      buildCalculationNotesInner REGION_DISPLAY (Some l) = Inr d) \<and>
   (locType l = ''region'' \<and> map_of REGION_DISPLAY (locValue l) = None \<longrightarrow>
      buildCalculationNotesInner REGION_DISPLAY (Some l) = Inr (locValue l)) \<and>
   (locType l \<notin> {''airport'', ''city'', ''country'', ''region''} \<longrightarrow>
      buildCalculationNotesInner REGION_DISPLAY (Some l) =
        Inl (Error (''Cannot create calcluation notes for unknown type '' @ locType l)))"
proof -
  have shape: "locType x = ''city'' \<and> locValue x = toLowerCase (city airport) \<or>
      locType x = ''country'' \<and> locValue x = toLowerCase (country airport) \<or>
      locType x = ''region'' \<and> isInRegion (toLowerCase (iata airport)) (locValue x)"
    if "getOrigin isInRegion this airport = Some x \<or>
        getDestination isInRegion this airport = Some x" for x airport
    using that getOrigin_shape getDestination_shape by blast
  have rendered: "\<exists>orig dest a b res.
         getOriginAndDestination isInRegion this segment = (Some orig, Some dest) \<and>
         buildCalculationNotesInner REGION_DISPLAY (Some orig) = Inr a \<and>
         buildCalculationNotesInner REGION_DISPLAY (Some dest) = Inr b \<and>
         GeographicalRule_calculate isInRegion REGION_DISPLAY this segment fareEarnCategory =
           Inr res \<and>
         resNotes res = a @ '' to '' @ b"
    if ap: "GeographicalRule_applies isInRegion this segment fareEarnCategory = Inr True"
  proof -
    obtain orig dest t es where
      od: "getOriginAndDestination isInRegion this segment = (Some orig, Some dest)"
      and t: "destinationTable (destination (ruleConfig this)) (locType dest) = Some t"
      and es: "map_of t (locValue dest) = Some es"
      and cat: "fareEarnCategory \<in> set (keys es)"
      using ap
      by (cases "getOriginAndDestination isInRegion this segment")
         (auto simp: GeographicalRule_applies_def split: option.splits)
    obtain e where e: "map_of es fareEarnCategory = Some e"
      using cat map_of_key by blast
    have "\<exists>ao. getOrigin isInRegion this ao = Some orig"
      "\<exists>ad. getDestination isInRegion this ad = Some dest"
      using getOriginAndDestination_cases [of isInRegion this segment] od by auto
    then have "locType orig = ''city'' \<or> locType orig = ''country'' \<or> locType orig = ''region''"
      "locType dest = ''city'' \<or> locType dest = ''country'' \<or> locType dest = ''region''"
      using shape by blast+
    then obtain a b where
      a: "buildCalculationNotesInner REGION_DISPLAY (Some orig) = Inr a"
      and b: "buildCalculationNotesInner REGION_DISPLAY (Some dest) = Inr b"
      using buildCalculationNotesInner_known by blast
    have "GeographicalRule_calculate isInRegion REGION_DISPLAY this segment fareEarnCategory =
            Inr (buildCalculationReturn this fareEarnCategory (a @ '' to '' @ b)
                   (qantasPoints e) (statusCredits e))"
      by (simp add: GeographicalRule_calculate_def od t es e a b buildCalculationNotes_def)
    then show ?thesis
      using od a b by (simp add: buildCalculationReturn_def)
  qed
  have plain: "buildCalculationNotesInner REGION_DISPLAY (Some l) = Inr (locValue l)"
    if "locType l = ''city'' \<or> locType l = ''country''"
    using that by (auto simp: buildCalculationNotesInner_def)
  have shown: "buildCalculationNotesInner REGION_DISPLAY (Some l) = Inr d"
    if "locType l = ''region''" "map_of REGION_DISPLAY (locValue l) = Some d" "d \<noteq> []"
    using that by (simp add: buildCalculationNotesInner_def)
  have raw: "buildCalculationNotesInner REGION_DISPLAY (Some l) = Inr (locValue l)"
    if "locType l = ''region''" "map_of REGION_DISPLAY (locValue l) = None"
    using that by (simp add: buildCalculationNotesInner_def)
  have unknown: "buildCalculationNotesInner REGION_DISPLAY (Some l) =
        Inl (Error (''Cannot create calcluation notes for unknown type '' @ locType l))"
    if "locType l \<notin> {''airport'', ''city'', ''country'', ''region''}"
    using that by (simp add: buildCalculationNotesInner_def)
  from rendered shape [where x = l and airport = airport] plain shown raw unknown show ?thesis by blast
qed

theorem GeographicalRule_calculate_notes_witness:
  "(\<exists>res. GeographicalRule_calculate exampleIsInRegion exampleRegionDisplay exampleRegionRule
            \<lparr>fromAirport = SYD, toAirport = LAX\<rparr> ''economy'' = Inr res \<and>
          resNotes res = ''australia to North America'') \<and>
   buildCalculationNotesInner exampleRegionDisplay
     (Some \<lparr>locType = ''region'', locValue = ''westcoast''\<rparr>) = Inr ''westcoast'' \<and>
   buildCalculationNotesInner exampleRegionDisplay
     (Some \<lparr>locType = ''planet'', locValue = ''mars''\<rparr>) =
     Inl (Error ''Cannot create calcluation notes for unknown type planet'')"
proof -
  let ?au = "\<lparr>locType = ''country'', locValue = ''australia''\<rparr>"
  let ?na = "\<lparr>locType = ''region'', locValue = ''northamerica''\<rparr>"
  let ?wc = "\<lparr>locType = ''region'', locValue = ''westcoast''\<rparr>"
  let ?mars = "\<lparr>locType = ''planet'', locValue = ''mars''\<rparr>"
  have a: "buildCalculationNotesInner exampleRegionDisplay (Some ?au) = Inr ''australia''"
    using GeographicalRule_calculate_notes
      [where l = ?au and REGION_DISPLAY = exampleRegionDisplay]
    by simp
  have b: "buildCalculationNotesInner exampleRegionDisplay (Some ?na) = Inr ''North America''"
    using GeographicalRule_calculate_notes
      [where l = ?na and REGION_DISPLAY = exampleRegionDisplay and d = "''North America''"]
    by (simp add: exampleRegionDisplay_def)
  have c: "buildCalculationNotesInner exampleRegionDisplay (Some ?wc) = Inr ''westcoast''"
    using GeographicalRule_calculate_notes
      [where l = ?wc and REGION_DISPLAY = exampleRegionDisplay]
    by (simp add: exampleRegionDisplay_def)
  have d: "buildCalculationNotesInner exampleRegionDisplay (Some ?mars) =
             Inl (Error ''Cannot create calcluation notes for unknown type planet'')"
    using GeographicalRule_calculate_notes
      [where l = ?mars and REGION_DISPLAY = exampleRegionDisplay]
    by simp
  have "\<exists>orig dest a b res.
          getOriginAndDestination exampleIsInRegion exampleRegionRule
            \<lparr>fromAirport = SYD, toAirport = LAX\<rparr> = (Some orig, Some dest) \<and>
          buildCalculationNotesInner exampleRegionDisplay (Some orig) = Inr a \<and>
          buildCalculationNotesInner exampleRegionDisplay (Some dest) = Inr b \<and>
          GeographicalRule_calculate exampleIsInRegion exampleRegionDisplay exampleRegionRule
            \<lparr>fromAirport = SYD, toAirport = LAX\<rparr> ''economy'' = Inr res \<and>
          resNotes res = a @ '' to '' @ b"
    using GeographicalRule_calculate_notes
      [where isInRegion = exampleIsInRegion and this = exampleRegionRule and
         segment = "\<lparr>fromAirport = SYD, toAirport = LAX\<rparr>" and
         fareEarnCategory = "''economy''" and REGION_DISPLAY = exampleRegionDisplay]
      exampleRegionRule_applies
    by blast
  then have e: "\<exists>res. GeographicalRule_calculate exampleIsInRegion exampleRegionDisplay
                    exampleRegionRule \<lparr>fromAirport = SYD, toAirport = LAX\<rparr> ''economy'' =
                    Inr res \<and>
                  resNotes res = ''australia to North America''"
    using a b by (auto simp: exampleRegionRule_resolved)
  from c d e show ?thesis by blast
qed

section \<open>parseEarningRates: tokens and positions\<close>

lemma fold_update_other:
  "k \<notin> fst ` set xs \<Longrightarrow>
   map_of (fold (\<lambda>(fareClass, index) retval. AList.update fareClass (f index) retval) xs r) k =
     map_of r k"
  by (induction xs arbitrary: r) (auto simp: update_conv')

lemma fold_update_last:
  "k \<notin> fst ` set ys \<Longrightarrow>
   map_of (fold (\<lambda>(fareClass, index) retval. AList.update fareClass (f index) retval)
             (xs @ (k, i) # ys) r) k = Some (f i)"
  by (simp add: fold_update_other update_conv')

lemma fold_update_keys:
  "fst ` set (fold (\<lambda>(fareClass, index) retval. AList.update fareClass (f index) retval) xs r) =
     fst ` set xs \<union> fst ` set r"
proof (induction xs arbitrary: r)
  case Nil
  show ?case by simp
next
  case (Cons x xs)
  obtain a b where x: "x = (a, b)" by (cases x)
  have "fst ` set (AList.update a (f b) r) = {a} \<union> fst ` set r"
    by (rule dom_update)
  then show ?case
    by (simp add: x Cons.IH)
qed

lemma zip_index_split:
  assumes "i < length xs"
  shows "zip xs [0 ..< length xs] =
           zip (take i xs) [0 ..< i] @ (xs ! i, i) # zip (drop (Suc i) xs) [Suc i ..< length xs]"
proof -
  have "xs = take i xs @ xs ! i # drop (Suc i) xs"
    using assms by (simp add: id_take_nth_drop)
  moreover have "[0 ..< length xs] = [0 ..< i] @ i # [Suc i ..< length xs]"
    using assms by (metis less_imp_le_nat upt_add_eq_append upt_conv_Cons zero_le le_add_diff_inverse)
  ultimately have "zip xs [0 ..< length xs] =
      zip (take i xs @ xs ! i # drop (Suc i) xs) ([0 ..< i] @ i # [Suc i ..< length xs])"
    by simp
  also have "\<dots> = zip (take i xs) [0 ..< i] @
      zip (xs ! i # drop (Suc i) xs) (i # [Suc i ..< length xs])"
    using assms by (intro zip_append) simp
  finally show ?thesis by simp
qed

lemma parseEarningRates_at:
  assumes "i < length fareClasses" and "fareClasses ! i \<notin> set (drop (Suc i) fareClasses)"
  shows "map_of (parseEarningRates ps cs fareClasses) (fareClasses ! i) =
           Some (QantasEarnings
                   (orZero (parseInt (tokenAt (pointsPerFareclass ps) i)))
                   (orZero (parseInt (tokenAt (creditsPerFareclass cs) i))))"
proof -
  have "fareClasses ! i \<notin> fst ` set (zip (drop (Suc i) fareClasses) [Suc i ..< length fareClasses])"
    using assms(2) by (auto dest: set_zip_leftD)
  then show ?thesis
    unfolding parseEarningRates_def zip_index_split [OF assms(1)]
    by (rule fold_update_last)
qed

lemma parseEarningRates_keys:
  "set (keys (parseEarningRates ps cs fareClasses)) = set fareClasses"
proof -
  have "fst ` set (zip fareClasses [0 ..< length fareClasses]) = set fareClasses"
    by (metis length_upt minus_nat.diff_0 map_fst_zip set_map)
  then show ?thesis
    by (simp add: parseEarningRates_def keys_def fold_update_keys)
qed

lemma splitSpace_not_Nil: "splitSpace s \<noteq> []"
  by (induction s) (auto split: list.splits)

lemma splitSpace_chars:
  "t \<in> set (splitSpace s) \<Longrightarrow> c \<in> set t \<Longrightarrow> c \<in> set s \<and> c \<noteq> CHR '' ''"
proof (induction s arbitrary: t)
  case Nil
  then show ?case by simp
next
  case (Cons a s)
  show ?case
  proof (cases "a = CHR '' ''")
    case True
    with Cons show ?thesis by auto
  next
    case False
    obtain u us where u: "splitSpace s = u # us"
      using splitSpace_not_Nil by (cases "splitSpace s") auto
    with False Cons.prems have "t = a # u \<or> t \<in> set us" by auto
    then show ?thesis
    proof
      assume "t = a # u"
      with Cons.prems(2) have "c = a \<or> c \<in> set u" by auto
      then show ?thesis
        using False Cons.IH [of u] u by auto
    next
      assume "t \<in> set us"
      then show ?thesis
        using Cons.IH [of t] Cons.prems(2) u by auto
    qed
  qed
qed

lemma collapseWhiteSpace_chars:
  "c \<in> set (collapseWhiteSpace s) \<Longrightarrow> c = CHR '' '' \<or> (c \<in> set s \<and> \<not> isWhiteSpace c)"
proof (induction s rule: collapseWhiteSpace.induct)
  case 1
  then show ?case by simp
next
  case (2 a s)
  then show ?case
    by (auto split: if_splits dest: set_dropWhileD)
qed

lemma token_chars:
  assumes "t \<in> set (splitSpace (collapseWhiteSpace s))" and "c \<in> set t"
  shows "c \<in> set s \<and> \<not> isWhiteSpace c"
  using splitSpace_chars [OF assms] collapseWhiteSpace_chars [of c s] by blast

lemma trim_subset: "set (trim s) \<subseteq> set s"
  by (auto simp: trim_def dest!: set_dropWhileD)

lemma decimal_digit_iff:
  "isRadixDigit 10 c \<longleftrightarrow> 48 \<le> (of_char c :: nat) \<and> (of_char c :: nat) \<le> 57"
  by (auto simp: isRadixDigit_def digitValue_def Let_def)


lemma takeWhile_none: "\<forall>c\<in>set xs. \<not> P c \<Longrightarrow> takeWhile P xs = []"
  by (cases xs) auto

lemma parseInt_no_digit:
  assumes "\<forall>c\<in>set token. \<not> isRadixDigit 10 c"
  shows "parseInt token = None"
proof -
  define S1 where "S1 = dropWhile isWhiteSpace token"
  define S2 where
    "S2 = (if S1 \<noteq> [] \<and> (hd S1 = CHR ''+'' \<or> hd S1 = CHR ''-'') then tl S1 else S1)"
  have "set S1 \<subseteq> set token"
    by (auto simp: S1_def dest: set_dropWhileD)
  moreover have "set S2 \<subseteq> set S1"
    by (auto simp: S2_def dest: list.set_sel(2))
  ultimately have no: "\<forall>c\<in>set S2. \<not> isRadixDigit 10 c"
    using assms by blast
  have "isRadixDigit 10 (CHR ''0'')"
    by (simp add: decimal_digit_iff)
  then have "CHR ''0'' \<notin> set S2"
    using no by blast
  then have "take 2 S2 \<noteq> ''0x'' \<and> take 2 S2 \<noteq> ''0X''"
    by (metis in_set_takeD list.set_intros(1))
  moreover have "takeWhile (isRadixDigit 10) S2 = []"
    using no by (rule takeWhile_none)
  ultimately show ?thesis
    by (simp add: parseInt_def Let_def S1_def [symmetric] S2_def [symmetric])
qed




text \<open>
  Claim C8. The tokens of the points string are the pieces between single spaces of the
  string after \<^verbatim>\<open>trim\<close>, the removal of every comma and the collapse of each run of white
  space to one space; the tokens of the credits string are made the same way but keep
  their commas. The label at position \<open>i\<close> (the last position of that label) is mapped to
  the earnings parsed from token \<open>i\<close> of each list. No token holds white space, and no
  token of the points string holds a comma. On \<^verbatim>\<open>("1,000 500", "10 5", ["Y", "J"])\<close> the
  result is Y with 1000 points and 10 credits and J with 500 points and 5 credits.
\<close>

theorem parseEarningRates_positions:
  "parseEarningRates ''1,000 500'' ''10 5'' [''Y'', ''J''] =
     [(''Y'', QantasEarnings 1000 10), (''J'', QantasEarnings 500 5)] \<and>
   (i < length fareClasses \<and> fareClasses ! i \<notin> set (drop (Suc i) fareClasses) \<longrightarrow>
      map_of (parseEarningRates ps cs fareClasses) (fareClasses ! i) =
        Some (QantasEarnings
                (orZero (parseInt (tokenAt
                   (splitSpace (collapseWhiteSpace (removeCommas (trim ps)))) i)))
                (orZero (parseInt (tokenAt
                   (splitSpace (collapseWhiteSpace (trim cs))) i))))) \<and>
   set (keys (parseEarningRates ps cs fareClasses)) = set fareClasses \<and>
   (\<forall>t\<in>set (pointsPerFareclass ps). \<forall>c\<in>set t.
      c \<in> set ps \<and> \<not> isWhiteSpace c \<and> c \<noteq> CHR '','') \<and>
   (\<forall>t\<in>set (creditsPerFareclass cs). \<forall>c\<in>set t. c \<in> set cs \<and> \<not> isWhiteSpace c)"
proof -
  have ex: "parseEarningRates ''1,000 500'' ''10 5'' [''Y'', ''J''] =
              [(''Y'', QantasEarnings 1000 10), (''J'', QantasEarnings 500 5)]"
    by code_simp
  have pos: "map_of (parseEarningRates ps cs fareClasses) (fareClasses ! i) =
        Some (QantasEarnings
                (orZero (parseInt (tokenAt
                   (splitSpace (collapseWhiteSpace (removeCommas (trim ps)))) i)))
                (orZero (parseInt (tokenAt
                   (splitSpace (collapseWhiteSpace (trim cs))) i))))"
    if "i < length fareClasses" "fareClasses ! i \<notin> set (drop (Suc i) fareClasses)"
    using parseEarningRates_at [OF that]
    by (simp add: pointsPerFareclass_def creditsPerFareclass_def)
  have pts: "c \<in> set ps \<and> \<not> isWhiteSpace c \<and> c \<noteq> CHR '',''"
    if "t \<in> set (pointsPerFareclass ps)" "c \<in> set t" for t c
  proof -
    have "c \<in> set (removeCommas (trim ps)) \<and> \<not> isWhiteSpace c"
      using that token_chars unfolding pointsPerFareclass_def by blast
    then show ?thesis
      using trim_subset [of ps] by (auto simp: removeCommas_def)
  qed
  have crs: "c \<in> set cs \<and> \<not> isWhiteSpace c"
    if "t \<in> set (creditsPerFareclass cs)" "c \<in> set t" for t c
  proof -
    have "c \<in> set (trim cs) \<and> \<not> isWhiteSpace c"
      using that token_chars unfolding creditsPerFareclass_def by blast
    then show ?thesis
      using trim_subset [of cs] by auto
  qed
  from ex pos parseEarningRates_keys [of ps cs fareClasses] pts crs show ?thesis
    by blast
qed

theorem parseEarningRates_positions_witness:
  "map_of (parseEarningRates '' 2,500   1,250  '' ''20 1,0'' [''Y'', ''J'']) ''J'' =
     Some (QantasEarnings 1250 1) \<and>
   pointsPerFareclass '' 2,500   1,250  '' = [''2500'', ''1250''] \<and>
   creditsPerFareclass ''20 1,0'' = [''20'', ''1,0'']"
proof -
  have p: "pointsPerFareclass '' 2,500   1,250  '' = [''2500'', ''1250'']"
    by code_simp
  have c: "creditsPerFareclass ''20 1,0'' = [''20'', ''1,0'']"
    by code_simp
  have v: "orZero (parseInt ''1250'') = 1250 \<and> orZero (parseInt ''1,0'') = 1"
    by code_simp
  have "map_of (parseEarningRates '' 2,500   1,250  '' ''20 1,0'' [''Y'', ''J''])
          ([''Y'', ''J''] ! 1) = Some (QantasEarnings 1250 1)"
    using parseEarningRates_positions
      [where i = 1 and fareClasses = "[''Y'', ''J'']" and ps = "'' 2,500   1,250  ''" and
         cs = "''20 1,0''", THEN conjunct2, THEN conjunct1]
      p c v
    by (simp add: pointsPerFareclass_def creditsPerFareclass_def tokenAt_def)
  then show ?thesis using p c by simp
qed

section \<open>parseEarningRates: leniency\<close>

text \<open>
  Claim C9. A token without any decimal digit, the empty token among them, parses to NaN
  and counts as 0; a position beyond the end of a token list counts as 0; so the label at
  position \<open>i\<close> has an entry whose points, or credits, are 0 whenever token \<open>i\<close> of that
  list is missing or fails to parse. Every label has an entry: the function has no
  failing branch.
\<close>

theorem parseEarningRates_lenient:
  "((\<forall>c\<in>set token. \<not> isRadixDigit 10 c) \<longrightarrow>
      parseInt token = None \<and> orZero (parseInt token) = 0) \<and>
   (length tokens \<le> i \<longrightarrow> orZero (parseInt (tokenAt tokens i)) = 0) \<and>
   (i < length fareClasses \<and> fareClasses ! i \<notin> set (drop (Suc i) fareClasses) \<longrightarrow>
      (\<exists>e. map_of (parseEarningRates ps cs fareClasses) (fareClasses ! i) = Some e \<and>
           (length (pointsPerFareclass ps) \<le> i \<or>
            parseInt (pointsPerFareclass ps ! i) = None \<longrightarrow> qantasPoints e = 0) \<and>
           (length (creditsPerFareclass cs) \<le> i \<or>
            parseInt (creditsPerFareclass cs ! i) = None \<longrightarrow> statusCredits e = 0))) \<and>
   set (keys (parseEarningRates ps cs fareClasses)) = set fareClasses"
proof -
  have undef: "parseInt ''undefined'' = None"
    by (rule parseInt_no_digit) (simp add: decimal_digit_iff)
  have missing: "orZero (parseInt (tokenAt ts j)) = 0"
    if "length ts \<le> j \<or> parseInt (ts ! j) = None" for ts j
    using that undef by (auto simp: tokenAt_def orZero_def)
  have a: "parseInt token = None \<and> orZero (parseInt token) = 0"
    if "\<forall>c\<in>set token. \<not> isRadixDigit 10 c"
    using parseInt_no_digit [OF that] by (simp add: orZero_def)
  have b: "\<exists>e. map_of (parseEarningRates ps cs fareClasses) (fareClasses ! i) = Some e \<and>
           (length (pointsPerFareclass ps) \<le> i \<or>
            parseInt (pointsPerFareclass ps ! i) = None \<longrightarrow> qantasPoints e = 0) \<and>
           (length (creditsPerFareclass cs) \<le> i \<or>
            parseInt (creditsPerFareclass cs ! i) = None \<longrightarrow> statusCredits e = 0)"
    if "i < length fareClasses" "fareClasses ! i \<notin> set (drop (Suc i) fareClasses)"
    using parseEarningRates_at [OF that, of ps cs] missing
    by (auto simp: QantasEarnings_def)
  from a b missing [of tokens i] parseEarningRates_keys [of ps cs fareClasses]
  show ?thesis by blast
qed

theorem parseEarningRates_lenient_witness:
  "parseEarningRates ''abc 500'' ''10 5'' [''Y'', ''J''] =
     [(''Y'', QantasEarnings 0 10), (''J'', QantasEarnings 500 5)] \<and>
   orZero (parseInt ''abc'') = 0 \<and> orZero (parseInt '''') = 0 \<and>
   map_of (parseEarningRates ''7'' ''1'' [''Y'', ''J'']) ''J'' = Some (QantasEarnings 0 0)"
proof -
  have h: "\<forall>c\<in>set ''abc''. \<not> isRadixDigit 10 c"
    by (simp add: decimal_digit_iff)
  have a: "orZero (parseInt ''abc'') = 0"
    using parseEarningRates_lenient [where token = "''abc''", THEN conjunct1] h
    by blast
  have b: "orZero (parseInt '''') = 0"
    using parseEarningRates_lenient [where token = "''''", THEN conjunct1]
    by auto
  have t: "pointsPerFareclass ''7'' = [''7''] \<and> creditsPerFareclass ''1'' = [''1'']"
    by code_simp
  have "\<exists>e. map_of (parseEarningRates ''7'' ''1'' [''Y'', ''J'']) ([''Y'', ''J''] ! 1) = Some e \<and>
            qantasPoints e = 0 \<and> statusCredits e = 0"
    using parseEarningRates_lenient
      [where i = 1 and fareClasses = "[''Y'', ''J'']" and ps = "''7''" and cs = "''1''",
         THEN conjunct2, THEN conjunct2, THEN conjunct1] t
    by simp
  then have c: "map_of (parseEarningRates ''7'' ''1'' [''Y'', ''J'']) ''J'' =
                  Some (QantasEarnings 0 0)"
    by (auto simp: QantasEarnings_def)
  have d: "parseEarningRates ''abc 500'' ''10 5'' [''Y'', ''J''] =
             [(''Y'', QantasEarnings 0 10), (''J'', QantasEarnings 500 5)]"
    by code_simp
  from a b c d show ?thesis by blast
qed

section \<open>parseEarningRates: digits followed by other characters\<close>




end
